theory Spec2Isabelle
  imports Complex_Main "HOL-Library.Signed_Division"
begin

section \<open>The eSpeak dialplan application: \<open>app_exec\<close> of app_espeak.c\<close>

text \<open>
  The module has one function of substance, \<open>app_exec\<close>. It reads \<open>espeak.conf\<close>,
  normalises the target sample rate, optionally plays a cached file, lets eSpeak write raw
  PCM into a temporary file, copies or resamples that file into a WAV file, and plays it.

  Everything the function does is a call into the host (Asterisk), libc, espeak, libsndfile
  or libsamplerate. The model makes those calls explicit in two ways:
  \<^item> what a call returns is a field of the environment record \<open>env\<close> (one field per call
    site whose result the code reads; library functions whose body is not part of the
    module, such as \<open>atoi\<close> or \<open>src_simple\<close>, are function-valued fields);
  \<^item> every call with an effect is appended to a trace of events, in program order.
  \<open>app_exec\<close> returns the trace together with an outcome: the \<open>int\<close> it returns, or
  \<open>Undefined\<close> where the C program has no defined behaviour (a null buffer handed to a
  library for a non-empty transfer, a negative frame count, a division by zero, a signed
  overflow).

  Audio samples are the \<open>float\<close>s of the C buffers. The module never computes with them, it
  only moves them, so their type is a parameter \<open>'a\<close>. \<open>target_sample_rate\<close> is a C
  \<open>double\<close> that only ever holds the value of an \<open>int\<close> (8000 or the result of
  \<open>atoi\<close>), which a double represents exactly; it is an \<open>int\<close> here. \<open>ast_debug\<close> calls
  have no effect on the run and are left out. \<open>synth_callback\<close>, through which eSpeak
  appends the samples to the raw file, runs inside \<open>espeak_Synth\<close> and is part of that
  event; registering and unregistering the application (\<open>load_module\<close>,
  \<open>unload_module\<close>) is not modelled.
\<close>

subsection \<open>Constants\<close>

definition ESPEAK_CONFIG :: string where
  "ESPEAK_CONFIG = ''espeak.conf''"

definition MAXLEN :: nat where
  "MAXLEN = 2048"

definition RAW_PCM_S16LE :: int where
  "RAW_PCM_S16LE = 262146"

definition WAV_PCM_S16LE :: int where
  "WAV_PCM_S16LE = 65538"

definition AST_DIGIT_ANY :: string where
  "AST_DIGIT_ANY = ''0123456789#*ABCD''"

subsection \<open>Data\<close>

text \<open>\<open>SF_INFO\<close> of libsndfile.\<close>

record sf_info =
  frames :: int
  samplerate :: int
  channels :: int
  format :: int
  sections :: int
  seekable :: int

text \<open>
  The application arguments declared with \<open>AST_DECLARE_APP_ARGS\<close>. The first argument of
  a non-empty string is always present; the other two are null pointers when absent.
\<close>

record app_args =
  arg_text :: string
  arg_interrupt :: "string option"
  arg_language :: "string option"

text \<open>The local variables that \<open>espeak.conf\<close> may overwrite, with their initial values.\<close>

record settings =
  usecache :: int
  cachedir :: string
  target_sample_rate :: int
  speed :: int
  volume :: int
  wordgap :: int
  pitch :: int
  capind :: int
  voice :: string

datatype log_level = LOG_WARNING | LOG_ERROR

datatype espeak_parameter = espeakRATE | espeakVOLUME | espeakWORDGAP | espeakPITCH | espeakCAPITALS

text \<open>
  The calls with an effect. A file name is a \<open>string option\<close> where the C array holding
  it may be uninitialised (\<open>None\<close>); a buffer is an \<open>option\<close> where the pointer may be
  null. \<open>Src_simple\<close> carries \<open>data_in\<close>, \<open>input_frames\<close>, \<open>output_frames\<close> and the
  two rates whose quotient is \<open>src_ratio\<close>. \<open>Sf_writef_float\<close> carries the buffer written
  and the frame count.
\<close>

datatype 'a event =
    Ast_log log_level string
  | Ast_config_load string
  | Ast_config_destroy
  | Ast_answer
  | Ast_streamfile string
  | Ast_waitstream "string option"
  | Ast_stopstream
  | Ast_filecopy string string
  | Ast_filedelete string
  | Espeak_Initialize
  | Espeak_SetSynthCallback
  | Espeak_SetVoiceByName string
  | Espeak_SetParameter espeak_parameter int
  | Espeak_Synth string
  | Espeak_Terminate
  | Fopen "string option"
  | Fclose
  | Sf_open_read "string option" sf_info
  | Sf_open_write "string option" sf_info
  | Malloc int
  | Sf_readf_float int
  | Src_simple "'a list" int int int int
  | Memcpy int
  | Sf_writef_float "'a list" int
  | Sf_write_sync
  | Sf_close_src
  | Sf_close_dst
  | Free_src
  | Free_dst
  | Remove "string option"

datatype outcome = Returns int | Undefined

text \<open>
  What the surroundings answer. \<open>malloc_src\<close> and \<open>malloc_dst\<close> are \<open>None\<close> when
  \<open>malloc\<close> returns a null pointer and otherwise give the indeterminate initial contents
  of the block, cell by cell. \<open>sf_open_src\<close> is \<open>None\<close> when the raw file cannot be opened
  and otherwise the fields libsndfile fills in for a RAW file (frames, sections, seekable;
  sample rate, channels and format stay as the caller set them). \<open>sf_readf_float_src\<close> is
  the frames libsndfile delivers, possibly fewer than asked for. \<open>src_simple\<close> takes the
  target and source rates, the input frames and \<open>output_frames\<close>, and gives the frames it
  generates.
\<close>

record 'a env =
  ast_config_load :: bool
  ast_variable_retrieve :: "string \<Rightarrow> string \<Rightarrow> string option"
  ast_true :: "string \<Rightarrow> int"
  atoi :: "string \<Rightarrow> int"
  standard_app_args :: "string \<Rightarrow> app_args"
  ast_md5_hash :: "string \<Rightarrow> string"
  ast_fileexists :: "string \<Rightarrow> int"
  chan_state_up_cache :: bool
  ast_streamfile_cache :: int
  ast_waitstream_cache :: int
  ast_random :: int
  espeak_Initialize :: int
  fopen_ok :: bool
  sf_open_src :: "(int \<times> int \<times> int) option"
  sf_open_dst_ok :: bool
  malloc_src :: "(nat \<Rightarrow> 'a) option"
  sf_readf_float_src :: "'a list"
  malloc_dst :: "(nat \<Rightarrow> 'a) option"
  src_simple :: "int \<Rightarrow> int \<Rightarrow> 'a list \<Rightarrow> int \<Rightarrow> 'a list"
  chan_state_up_play :: bool
  ast_streamfile_play :: int
  ast_waitstream_play :: int

subsection \<open>Small C and host helpers\<close>

text \<open>\<open>ast_strlen_zero(s)\<close> is \<open>(!s || (*s == '\0'))\<close>.\<close>

definition ast_strlen_zero :: "string option \<Rightarrow> bool" where
  "ast_strlen_zero s = (case s of None \<Rightarrow> True | Some t \<Rightarrow> t = [])"

text \<open>\<open>snprintf(buf, sz, ...)\<close> keeps at most \<open>sz - 1\<close> characters.\<close>

definition snprintf :: "nat \<Rightarrow> string \<Rightarrow> string" where
  "snprintf sz s = take (sz - 1) s"

text \<open>The conversion \<open>%li\<close>.\<close>

fun dec_digits :: "nat \<Rightarrow> string" where
  "dec_digits n =
     (if n < 10 then [''0123456789'' ! n]
      else dec_digits (n div 10) @ [''0123456789'' ! (n mod 10)])"

declare dec_digits.simps [simp del]

definition show_long :: "int \<Rightarrow> string" where
  "show_long i = (if i < 0 then CHR ''-'' # dec_digits (nat (- i)) else dec_digits (nat i))"

definition tolower_c :: "char \<Rightarrow> char" where
  "tolower_c c =
     (case map_of (zip ''ABCDEFGHIJKLMNOPQRSTUVWXYZ'' ''abcdefghijklmnopqrstuvwxyz'') c of
        None \<Rightarrow> c
      | Some l \<Rightarrow> l)"

text \<open>\<open>!strcasecmp(a, b)\<close>.\<close>

definition strcasecmp_eq :: "string \<Rightarrow> string \<Rightarrow> bool" where
  "strcasecmp_eq a b = (map tolower_c a = map tolower_c b)"

text \<open>
  A block of \<open>n\<close> cells with initial contents \<open>g\<close> after a library has stored \<open>xs\<close> at
  its front, at most \<open>n\<close> of them: the cells beyond keep what they held.
\<close>

definition store_front :: "(nat \<Rightarrow> 'a) \<Rightarrow> nat \<Rightarrow> 'a list \<Rightarrow> 'a list" where
  "store_front g n xs = take n xs @ map g [min (length xs) n ..< n]"

text \<open>Whether a value fits \<open>sf_count_t\<close>, a signed 64-bit integer.\<close>

definition in_sf_count_t :: "int \<Rightarrow> bool" where
  "in_sf_count_t x = (- (2 ^ 63) \<le> x \<and> x < 2 ^ 63)"

text \<open>\<open>trace\<close> followed by a run: the events of the run come after \<open>evs\<close>.\<close>

definition followed_by :: "'a event list \<Rightarrow> 'a event list \<times> outcome \<Rightarrow> 'a event list \<times> outcome" where
  "followed_by evs r = (evs @ fst r, snd r)"

text \<open>
  The contents of a block of \<open>n\<close> cells after a library call has stored \<open>xs\<close> at its
  front. \<open>None\<close> where the C program does not go on in a defined way: when the count \<open>n\<close>
  is negative (the byte counts \<open>n * sizeof(float)\<close> given to \<open>malloc\<close> and \<open>memcpy\<close>
  then wrap around in \<open>size_t\<close>), and when the block is a null pointer and the call was to
  transfer a positive number of cells.
\<close>

definition stored :: "(nat \<Rightarrow> 'a) option \<Rightarrow> int \<Rightarrow> 'a list \<Rightarrow> 'a list option" where
  "stored blk n xs =
     (if n < 0 then None
      else
        (case blk of
           None \<Rightarrow> if 0 < n then None else Some []
         | Some g \<Rightarrow> Some (store_front g (nat n) xs)))"

subsection \<open>Lines 108 to 141: the configuration\<close>

definition default_settings :: settings where
  "default_settings =
     \<lparr>usecache = 0, cachedir = ''/tmp'', target_sample_rate = 8000, speed = 150,
      volume = 100, wordgap = 1, pitch = 50, capind = 0, voice = ''default''\<rparr>"

definition retrieve_atoi :: "'a env \<Rightarrow> string \<Rightarrow> string \<Rightarrow> int \<Rightarrow> int" where
  "retrieve_atoi e category variable old =
     (case ast_variable_retrieve e category variable of
        None \<Rightarrow> old
      | Some temp \<Rightarrow> atoi e temp)"

definition load_settings :: "'a env \<Rightarrow> settings" where
  "load_settings e =
     (if \<not> ast_config_load e then default_settings
      else
        \<lparr>usecache =
           (case ast_variable_retrieve e ''general'' ''usecache'' of
              None \<Rightarrow> 0
            | Some temp \<Rightarrow> ast_true e temp),
         cachedir =
           (case ast_variable_retrieve e ''general'' ''cachedir'' of
              None \<Rightarrow> ''/tmp''
            | Some d \<Rightarrow> d),
         target_sample_rate = retrieve_atoi e ''general'' ''samplerate'' 8000,
         speed = retrieve_atoi e ''voice'' ''speed'' 150,
         volume = retrieve_atoi e ''voice'' ''volume'' 100,
         wordgap = retrieve_atoi e ''voice'' ''wordgap'' 1,
         pitch = retrieve_atoi e ''voice'' ''pitch'' 50,
         capind = retrieve_atoi e ''voice'' ''capind'' 0,
         voice =
           (case ast_variable_retrieve e ''voice'' ''voice'' of
              None \<Rightarrow> ''default''
            | Some temp \<Rightarrow> temp)\<rparr>)"

definition config_events :: "'a env \<Rightarrow> 'a event list" where
  "config_events e =
     Ast_config_load ESPEAK_CONFIG #
     (if \<not> ast_config_load e
      then [Ast_log LOG_WARNING
        ''eSpeak: No such configuration file %s using default settings\<newline>'']
      else [])"

subsection \<open>Lines 143 to 150: the arguments\<close>

definition parse_args :: "'a env \<Rightarrow> string \<Rightarrow> app_args" where
  "parse_args e mydata =
     (let args = standard_app_args e mydata
      in case arg_interrupt args of
           None \<Rightarrow> args
         | Some i \<Rightarrow> if strcasecmp_eq i ''any'' then args\<lparr>arg_interrupt := Some AST_DIGIT_ANY\<rparr>
                     else args)"

definition effective_voice :: "settings \<Rightarrow> app_args \<Rightarrow> string" where
  "effective_voice s args =
     (if \<not> ast_strlen_zero (arg_language args) then the (arg_language args) else voice s)"

subsection \<open>Lines 152 to 157: the sample rate\<close>

definition rate_fallback :: "int \<Rightarrow> int" where
  "rate_fallback r = (if r \<noteq> 8000 \<and> r \<noteq> 16000 then 8000 else r)"

definition rate_events :: "int \<Rightarrow> 'a event list" where
  "rate_events r =
     (if r \<noteq> 8000 \<and> r \<noteq> 16000
      then [Ast_log LOG_WARNING
        ''eSpeak: Unsupported sample rate: %lf. Falling back to 8000Hz\<newline>'']
      else [])"

subsection \<open>Lines 278 to 296: caching and playing the result\<close>

definition play_stage ::
  "'a env \<Rightarrow> app_args \<Rightarrow> string \<Rightarrow> int \<Rightarrow> string \<Rightarrow> 'a event list \<times> outcome" where
  "play_stage e args tmp_name writecache cachefile =
     (let evs =
            (if writecache \<noteq> 0 then [Ast_filecopy tmp_name cachefile] else []) @
            (if \<not> chan_state_up_play e then [Ast_answer] else []) @
            [Ast_streamfile tmp_name];
          res = ast_streamfile_play e
      in if res \<noteq> 0
         then (evs @ [Ast_log LOG_ERROR ''eSpeak: ast_streamfile failed on %s\<newline>'',
                      Ast_filedelete tmp_name, Ast_config_destroy],
               Returns res)
         else (evs @ [Ast_waitstream (arg_interrupt args), Ast_stopstream,
                      Ast_filedelete tmp_name, Ast_config_destroy],
               Returns (ast_waitstream_play e)))"

subsection \<open>Lines 254 to 276: reading, resampling and writing the samples\<close>

text \<open>
  Line 256, \<open>src_info.frames * (sf_count_t)target_sample_rate / (sf_count_t)sample_rate\<close>:
  a signed 64-bit product and a division that truncates towards zero (\<open>sdiv\<close>). \<open>None\<close>
  where C leaves the result undefined: a zero divisor, or a product outside the type.
  (The divisor is never -1 here: that value of \<open>sample_rate\<close> has returned at line 208.)
\<close>

definition dst_frames :: "int \<Rightarrow> int \<Rightarrow> int \<Rightarrow> int option" where
  "dst_frames src_frames target sample_rate =
     (if sample_rate = 0 then None
      else if in_sf_count_t (src_frames * target)
        then Some ((src_frames * target) sdiv sample_rate)
        else None)"

text \<open>\<open>malloc(n * sizeof(float))\<close>: the size is computed in \<open>size_t\<close>.\<close>

definition malloc_size :: "int \<Rightarrow> int" where
  "malloc_size n = (n * 4) mod 2 ^ 64"

text \<open>The calls after the samples are in \<open>dst\<close>, lines 270 to 276.\<close>

definition write_events :: "'a list \<Rightarrow> int \<Rightarrow> string option \<Rightarrow> 'a event list" where
  "write_events dst n raw_name =
     [Sf_writef_float dst n, Sf_write_sync, Sf_close_src, Sf_close_dst, Free_src, Free_dst,
      Remove raw_name]"

definition convert_samples ::
  "'a env \<Rightarrow> int \<Rightarrow> int \<Rightarrow> int \<Rightarrow> string option \<Rightarrow> 'a event list \<times> outcome \<Rightarrow>
   'a event list \<times> outcome" where
  "convert_samples e target sample_rate src_frames raw_name rest =
     (case stored (malloc_src e) src_frames (sf_readf_float_src e) of
        None \<Rightarrow> ([Malloc (malloc_size src_frames), Sf_readf_float src_frames], Undefined)
      | Some src \<Rightarrow>
          followed_by [Malloc (malloc_size src_frames), Sf_readf_float src_frames]
            (case dst_frames src_frames target sample_rate of
               None \<Rightarrow> ([], Undefined)
             | Some n \<Rightarrow>
                 followed_by [Malloc (malloc_size n)]
                   (if sample_rate \<noteq> target
                    then
                      (case stored (malloc_dst e) n (src_simple e target sample_rate src n) of
                         None \<Rightarrow> ([Src_simple src src_frames n target sample_rate], Undefined)
                       | Some dst \<Rightarrow>
                           followed_by
                             (Src_simple src src_frames n target sample_rate #
                              write_events dst n raw_name)
                             rest)
                    else
                      (case stored (malloc_dst e) n src of
                         None \<Rightarrow> ([Memcpy (malloc_size n)], Undefined)
                       | Some dst \<Rightarrow>
                           followed_by (Memcpy (malloc_size n) # write_events dst n raw_name)
                             rest))))"

subsection \<open>Lines 230 to 253: opening the raw file and the WAV file\<close>

definition src_info_init :: "int \<Rightarrow> sf_info" where
  "src_info_init sample_rate =
     \<lparr>frames = 0, samplerate = sample_rate, channels = 1, format = RAW_PCM_S16LE,
      sections = 0, seekable = 0\<rparr>"

definition dst_info_init :: "sf_info \<Rightarrow> int \<Rightarrow> sf_info" where
  "dst_info_init src_info target = src_info\<lparr>samplerate := target, format := WAV_PCM_S16LE\<rparr>"

definition convert_stage ::
  "'a env \<Rightarrow> int \<Rightarrow> int \<Rightarrow> string option \<Rightarrow> string option \<Rightarrow> 'a event list \<times> outcome \<Rightarrow>
   'a event list \<times> outcome" where
  "convert_stage e target sample_rate raw_name wav_name rest =
     (case sf_open_src e of
        None \<Rightarrow>
          ([Sf_open_read raw_name (src_info_init sample_rate),
            Ast_log LOG_ERROR ''eSpeak: Failed to read raw audio data '%s'\<newline>'',
            Ast_config_destroy, Remove raw_name],
           Returns (- 1))
      | Some (fr, se, sk) \<Rightarrow>
          (let src_info = (src_info_init sample_rate)\<lparr>frames := fr, sections := se, seekable := sk\<rparr>;
               dst_info = dst_info_init src_info target
           in if \<not> sf_open_dst_ok e
              then ([Sf_open_read raw_name (src_info_init sample_rate),
                     Sf_open_write wav_name dst_info,
                     Ast_log LOG_ERROR ''eSpeak: Failed to create wav audio file '%s'\<newline>'',
                     Ast_config_destroy, Sf_close_src, Remove raw_name],
                    Returns (- 1))
              else followed_by
                     [Sf_open_read raw_name (src_info_init sample_rate),
                      Sf_open_write wav_name dst_info]
                     (convert_samples e target sample_rate (frames src_info) raw_name rest)))"

subsection \<open>Lines 190 to 228: temporary names and synthesis\<close>

definition tmp_name_of :: "'a env \<Rightarrow> string" where
  "tmp_name_of e = snprintf 25 (''/tmp/eSpeak_'' @ show_long (ast_random e))"

text \<open>
  \<open>wav_name\<close> and \<open>raw_name\<close> are written only under the two tests of lines 192 and 197;
  otherwise the arrays stay uninitialised.
\<close>

definition wav_name_of :: "string \<Rightarrow> int \<Rightarrow> string option" where
  "wav_name_of tmp_name target =
     (let w16 = (if target = 16000 then Some (snprintf 29 (tmp_name @ ''.wav16'')) else None)
      in if target = 8000 then Some (snprintf 29 (tmp_name @ ''.wav'')) else w16)"

definition raw_name_of :: "string \<Rightarrow> int \<Rightarrow> string option" where
  "raw_name_of tmp_name target =
     (let r16 = (if target = 16000 then Some (snprintf 29 (tmp_name @ ''.raw'')) else None)
      in if target = 8000 then Some (snprintf 29 (tmp_name @ ''.raw'')) else r16)"

definition synth_stage ::
  "'a env \<Rightarrow> settings \<Rightarrow> app_args \<Rightarrow> string \<Rightarrow> int \<Rightarrow> int \<Rightarrow> string \<Rightarrow>
   'a event list \<times> outcome" where
  "synth_stage e s args vc target writecache cachefile =
     (let tmp_name = tmp_name_of e;
          wav_name = wav_name_of tmp_name target;
          raw_name = raw_name_of tmp_name target;
          sample_rate = espeak_Initialize e
      in if sample_rate = - 1
         then ([Espeak_Initialize,
                Ast_log LOG_ERROR ''eSpeak: Internal espeak error, aborting.\<newline>'',
                Ast_config_destroy],
               Returns (- 1))
         else
           (let setup =
                  [Espeak_Initialize, Espeak_SetSynthCallback, Espeak_SetVoiceByName vc,
                   Espeak_SetParameter espeakRATE (speed s),
                   Espeak_SetParameter espeakVOLUME (volume s),
                   Espeak_SetParameter espeakWORDGAP (wordgap s),
                   Espeak_SetParameter espeakPITCH (pitch s),
                   Espeak_SetParameter espeakCAPITALS (capind s),
                   Fopen raw_name]
            in if \<not> fopen_ok e
               then (setup @
                     [Ast_log LOG_ERROR
                       ''eSpeak: Failed to create audio buffer file '%s'\<newline>'',
                      Ast_config_destroy],
                     Returns (- 1))
               else followed_by (setup @ [Espeak_Synth (arg_text args), Espeak_Terminate, Fclose])
                      (convert_stage e target sample_rate raw_name wav_name
                         (play_stage e args tmp_name writecache cachefile))))"

subsection \<open>Lines 163 to 188: the cache\<close>

definition cachefile_of :: "settings \<Rightarrow> string \<Rightarrow> string" where
  "cachefile_of s MD5_name = snprintf MAXLEN (cachedir s @ ''/'' @ MD5_name)"

definition cache_stage ::
  "'a env \<Rightarrow> settings \<Rightarrow> app_args \<Rightarrow> string \<Rightarrow> int \<Rightarrow> 'a event list \<times> outcome" where
  "cache_stage e s args vc target =
     (let MD5_name = ast_md5_hash e (arg_text args)
      in if usecache s \<noteq> 0 \<and> length (cachedir s) + length MD5_name + 5 \<le> MAXLEN
         then
           (let cachefile = cachefile_of s MD5_name
            in if ast_fileexists e cachefile \<le> 0
               then synth_stage e s args vc target 1 cachefile
               else
                 (let evs = (if \<not> chan_state_up_cache e then [Ast_answer] else []) @
                            [Ast_streamfile cachefile]
                  in if ast_streamfile_cache e \<noteq> 0
                     then followed_by
                            (evs @ [Ast_log LOG_ERROR
                              ''eSpeak: ast_streamfile failed on %s\<newline>''])
                            (synth_stage e s args vc target 0 cachefile)
                     else (evs @ [Ast_waitstream (arg_interrupt args), Ast_stopstream,
                                  Ast_config_destroy],
                           Returns (ast_waitstream_cache e))))
         else synth_stage e s args vc target 0 [])"

subsection \<open>The function\<close>

definition app_exec :: "'a env \<Rightarrow> string option \<Rightarrow> 'a event list \<times> outcome" where
  "app_exec e data =
     (if ast_strlen_zero data
      then ([Ast_log LOG_ERROR ''eSpeak requires an argument (text)\<newline>''], Returns (- 1))
      else
        (let s = load_settings e;
             args = parse_args e (the data);
             vc = effective_voice s args
         in followed_by (config_events e @ rate_events (target_sample_rate s))
              (cache_stage e s args vc (rate_fallback (target_sample_rate s)))))"

subsection \<open>Notions used to state the properties\<close>

text \<open>
  The frame count as the specification words it:
  \<open>round(source.frame_count * target_rate / source.sample_rate)\<close>.
\<close>

definition spec_frame_count :: "int \<Rightarrow> int \<Rightarrow> int \<Rightarrow> int" where
  "spec_frame_count src_frames target sample_rate =
     round (real_of_int (src_frames * target) / real_of_int sample_rate)"

text \<open>
  An event is in order with respect to the sample rate when the rate it carries is 8000 or
  16000 and the temporary file it names has been named.
\<close>

fun event_rate_ok :: "'a event \<Rightarrow> bool" where
  "event_rate_ok (Fopen name) = (name \<noteq> None)"
| "event_rate_ok (Sf_open_read name info) = (name \<noteq> None)"
| "event_rate_ok (Sf_open_write name info) =
     (name \<noteq> None \<and> (samplerate info = 8000 \<or> samplerate info = 16000))"
| "event_rate_ok (Src_simple data_in input_frames output_frames target sample_rate) =
     (target = 8000 \<or> target = 16000)"
| "event_rate_ok (Remove name) = (name \<noteq> None)"
| "event_rate_ok ev = True"

text \<open>An event carries the rate \<open>t\<close> wherever it carries a target rate.\<close>

fun event_rate_is :: "int \<Rightarrow> 'a event \<Rightarrow> bool" where
  "event_rate_is t (Sf_open_write name info) = (samplerate info = t)"
| "event_rate_is t (Src_simple data_in input_frames output_frames target sample_rate) =
     (target = t)"
| "event_rate_is t ev = True"

text \<open>The calls of lines 246 to 270 that make up the conversion.\<close>

fun is_conversion_event :: "'a event \<Rightarrow> bool" where
  "is_conversion_event (Sf_open_write name info) = True"
| "is_conversion_event (Malloc n) = True"
| "is_conversion_event (Sf_readf_float n) = True"
| "is_conversion_event (Src_simple data_in input_frames output_frames target sample_rate) = True"
| "is_conversion_event (Memcpy n) = True"
| "is_conversion_event (Sf_writef_float dst n) = True"
| "is_conversion_event ev = False"

text \<open>
  A run reports a failure to read the raw file: wherever it tried to open that file for
  reading, it returned -1 and did nothing after the attempt but log the error, release the
  configuration and remove the file.
\<close>

definition read_failure_reported :: "'a event list \<times> outcome \<Rightarrow> bool" where
  "read_failure_reported r =
     (\<forall>name info. Sf_open_read name info \<in> set (fst r) \<longrightarrow>
        snd r = Returns (- 1) \<and>
        (\<exists>pre. fst r =
           pre @ [Sf_open_read name info,
                  Ast_log LOG_ERROR ''eSpeak: Failed to read raw audio data '%s'\<newline>'',
                  Ast_config_destroy, Remove name]))"

subsection \<open>Concrete surroundings\<close>

text \<open>
  A run in which every call succeeds: \<open>espeak.conf\<close> asks for 11025 Hz, eSpeak
  synthesises at 22050 Hz, the raw file holds three frames, and the resampler hands back
  the first \<open>output_frames\<close> input frames.
\<close>

definition env_11025 :: "int env" where
  "env_11025 =
     \<lparr>ast_config_load = True,
      ast_variable_retrieve =
        (\<lambda>c v. if c = ''general'' \<and> v = ''samplerate'' then Some ''11025'' else None),
      ast_true = (\<lambda>t. 0),
      atoi = (\<lambda>t. if t = ''11025'' then 11025 else 0),
      standard_app_args = (\<lambda>d. \<lparr>arg_text = d, arg_interrupt = None, arg_language = None\<rparr>),
      ast_md5_hash = (\<lambda>t. []),
      ast_fileexists = (\<lambda>f. 0),
      chan_state_up_cache = True,
      ast_streamfile_cache = 0,
      ast_waitstream_cache = 0,
      ast_random = 7,
      espeak_Initialize = 22050,
      fopen_ok = True,
      sf_open_src = Some (3, 1, 1),
      sf_open_dst_ok = True,
      malloc_src = Some (\<lambda>i. 0),
      sf_readf_float_src = [1, 2, 3],
      malloc_dst = Some (\<lambda>i. 0),
      src_simple = (\<lambda>target sample_rate data_in output_frames. take (nat output_frames) data_in),
      chan_state_up_play = True,
      ast_streamfile_play = 0,
      ast_waitstream_play = 0\<rparr>"

text \<open>The same run with no sample rate in \<open>espeak.conf\<close>.\<close>

definition env_no_rate :: "int env" where
  "env_no_rate =
     env_11025\<lparr>ast_variable_retrieve :=
                 (\<lambda>c v. if c = ''general'' \<and> v = ''samplerate'' then None
                        else ast_variable_retrieve env_11025 c v)\<rparr>"

text \<open>The same run with 16000 Hz asked for.\<close>

definition env_16000 :: "int env" where
  "env_16000 =
     env_11025\<lparr>ast_variable_retrieve :=
                 (\<lambda>c v. if c = ''general'' \<and> v = ''samplerate'' then Some ''16000'' else None),
               atoi := (\<lambda>t. if t = ''16000'' then 16000 else 0)\<rparr>"

text \<open>The same run with 22050 Hz asked for, the rate of the synthesiser.\<close>

definition env_22050 :: "int env" where
  "env_22050 =
     env_11025\<lparr>ast_variable_retrieve :=
                 (\<lambda>c v. if c = ''general'' \<and> v = ''samplerate'' then Some ''22050'' else None),
               atoi := (\<lambda>t. if t = ''22050'' then 22050 else 0)\<rparr>"

text \<open>
  16000 Hz asked for and delivered by the synthesiser, so that nothing is resampled; the
  block of the second \<open>malloc\<close> held 7 in every cell.
\<close>

definition env_passthrough :: "int env" where
  "env_passthrough =
     env_16000\<lparr>espeak_Initialize := 16000, malloc_dst := Some (\<lambda>i. 7)\<rparr>"

text \<open>
  The first run, in which the host splits the argument string \<open>",any"\<close> at the comma:
  an empty text and the interrupt keys \<open>"any"\<close>.
\<close>

definition env_empty_text :: "int env" where
  "env_empty_text =
     env_11025\<lparr>standard_app_args :=
                 (\<lambda>d. if d = '',any''
                      then \<lparr>arg_text = [], arg_interrupt = Some ''any'', arg_language = None\<rparr>
                      else \<lparr>arg_text = d, arg_interrupt = None, arg_language = None\<rparr>)\<rparr>"

text \<open>The first run with a raw file that cannot be opened for reading.\<close>

definition env_src_unreadable :: "int env" where
  "env_src_unreadable = env_11025\<lparr>sf_open_src := None\<rparr>"

text \<open>The first run with a null pointer from the second \<open>malloc\<close>.\<close>

definition env_dst_null :: "int env" where
  "env_dst_null = env_11025\<lparr>malloc_dst := None\<rparr>"

text \<open>
  The raw file is announced with four frames, libsndfile delivers two, and the block from
  the first \<open>malloc\<close> held 99 in every cell.
\<close>

definition env_short_read :: "int env" where
  "env_short_read =
     env_11025\<lparr>sf_open_src := Some (4, 1, 1), sf_readf_float_src := [1, 2],
               malloc_src := Some (\<lambda>i. 99)\<rparr>"

text \<open>
  Two runs that differ only in what the block of the second \<open>malloc\<close> held before; their
  resampler generates no frame.
\<close>

definition env_heap_0 :: "int env" where
  "env_heap_0 = env_11025\<lparr>src_simple := (\<lambda>target sample_rate data_in output_frames. [])\<rparr>"

definition env_heap_7 :: "int env" where
  "env_heap_7 = env_heap_0\<lparr>malloc_dst := Some (\<lambda>i. 7)\<rparr>"

section \<open>Properties\<close>

subsection \<open>Unfolding the run on concrete surroundings\<close>

lemmas run_defs =
  app_exec_def ast_strlen_zero_def load_settings_def retrieve_atoi_def parse_args_def
  effective_voice_def followed_by_def cache_stage_def synth_stage_def convert_stage_def
  convert_samples_def stored_def dst_frames_def in_sf_count_t_def play_stage_def
  rate_fallback_def rate_events_def config_events_def tmp_name_of_def wav_name_of_def
  raw_name_of_def snprintf_def show_long_def dec_digits.simps src_info_init_def
  dst_info_init_def write_events_def malloc_size_def store_front_def ESPEAK_CONFIG_def
  RAW_PCM_S16LE_def WAV_PCM_S16LE_def MAXLEN_def cachefile_of_def default_settings_def Let_def

subsection \<open>Buffers and the frame count\<close>

lemma length_store_front: "length (store_front g n xs) = n"
  by (simp add: store_front_def)

lemma store_front_exact: "length xs = n \<Longrightarrow> store_front g n xs = xs"
  by (simp add: store_front_def)

lemma store_front_filled: "n \<le> length xs \<Longrightarrow> store_front g n xs = take n xs"
  by (simp add: store_front_def)

lemma stored_length: "stored blk n xs = Some b \<Longrightarrow> length b = nat n"
  by (auto simp: stored_def length_store_front split: option.splits if_splits)

lemma stored_nonneg: "stored blk n xs = Some b \<Longrightarrow> 0 \<le> n"
  by (auto simp: stored_def split: if_splits)

lemma stored_exact: "0 \<le> n \<Longrightarrow> length xs = nat n \<Longrightarrow> stored (Some g) n xs = Some xs"
  by (simp add: stored_def store_front_exact)

lemma sdiv_mult_self: "t \<noteq> 0 \<Longrightarrow> (n * t) sdiv t = (n::int)"
  by (simp add: signed_divide_int_def abs_mult sgn_mult mult.assoc sgn_mult_abs flip: abs_sgn)

lemma sdiv_nonneg: "0 \<le> a \<Longrightarrow> 0 < b \<Longrightarrow> a sdiv b = a div (b::int)"
  by (cases "a = 0") (simp_all add: signed_divide_int_def)


lemma stored_Some: "0 \<le> n \<Longrightarrow> stored (Some g) n xs = Some (store_front g (nat n) xs)"
  by (simp add: stored_def)

lemma dst_frames_nonneg:
  assumes "0 \<le> n" and "0 < sample_rate" and "0 \<le> target" and "n * target < 2 ^ 63"
  shows "dst_frames n target sample_rate = Some (n * target div sample_rate)"
proof -
  have nonneg: "0 \<le> n * target"
    using assms(1,3) by simp
  then have "in_sf_count_t (n * target)"
    unfolding in_sf_count_t_def using assms(4) by linarith
  then show ?thesis
    using assms(2) nonneg by (simp add: dst_frames_def sdiv_nonneg)
qed

lemma dst_frames_same_rate:
  assumes "target \<noteq> 0" and "in_sf_count_t (n * target)"
  shows "dst_frames n target target = Some n"
  using assms by (simp add: dst_frames_def sdiv_mult_self)

subsection \<open>The two branches of line 259\<close>

lemma convert_samples_resample:
  assumes "stored (malloc_src e) n (sf_readf_float_src e) = Some src"
    and "dst_frames n target sample_rate = Some m"
    and "sample_rate \<noteq> target"
    and "stored (malloc_dst e) m (src_simple e target sample_rate src m) = Some dst"
  shows "convert_samples e target sample_rate n raw_name rest =
           followed_by
             ([Malloc (malloc_size n), Sf_readf_float n, Malloc (malloc_size m),
               Src_simple src n m target sample_rate] @ write_events dst m raw_name)
             rest"
  using assms by (simp add: convert_samples_def followed_by_def)

lemma convert_samples_copy:
  assumes "stored (malloc_src e) n (sf_readf_float_src e) = Some src"
    and "dst_frames n target sample_rate = Some m"
    and "sample_rate = target"
    and "stored (malloc_dst e) m src = Some dst"
  shows "convert_samples e target sample_rate n raw_name rest =
           followed_by
             ([Malloc (malloc_size n), Sf_readf_float n, Malloc (malloc_size m),
               Memcpy (malloc_size m)] @ write_events dst m raw_name)
             rest"
  using assms by (simp add: convert_samples_def followed_by_def)

lemma convert_samples_written:
  assumes "stored (malloc_src e) n (sf_readf_float_src e) = Some src"
    and "dst_frames n target sample_rate = Some m"
    and "malloc_dst e = Some g"
    and "0 \<le> m"
  shows "\<exists>dst. length dst = nat m \<and>
           Sf_writef_float dst m \<in>
             set (fst (convert_samples e target sample_rate n raw_name rest))"
proof (cases "sample_rate = target")
  case True
  have "stored (malloc_dst e) m src = Some (store_front g (nat m) src)"
    by (simp add: assms(3,4) stored_Some)
  from convert_samples_copy [OF assms(1,2) True this]
  have "Sf_writef_float (store_front g (nat m) src) m \<in>
          set (fst (convert_samples e target sample_rate n raw_name rest))"
    by (simp add: followed_by_def write_events_def)
  then show ?thesis
    using length_store_front by blast
next
  case False
  have "stored (malloc_dst e) m (src_simple e target sample_rate src m) =
          Some (store_front g (nat m) (src_simple e target sample_rate src m))"
    by (simp add: assms(3,4) stored_Some)
  from convert_samples_resample [OF assms(1,2) False this]
  have "Sf_writef_float (store_front g (nat m) (src_simple e target sample_rate src m)) m \<in>
          set (fst (convert_samples e target sample_rate n raw_name rest))"
    by (simp add: followed_by_def write_events_def)
  then show ?thesis
    using length_store_front by blast
qed

subsection \<open>Reaching the conversion\<close>

text \<open>
  With the cache off and the synthesiser and both files opened, \<open>app_exec\<close> runs
  \<open>convert_samples\<close> with the rate in effect as the target, the rate of the synthesiser
  as the source rate and the frame count that libsndfile reports, and plays the result.
\<close>

lemma followed_by_followed_by:
  "followed_by evs (followed_by evs' r) = followed_by (evs @ evs') r"
  by (simp add: followed_by_def)

lemma app_exec_converts:
  assumes "\<not> ast_strlen_zero data"
    and "usecache (load_settings e) = 0"
    and "espeak_Initialize e \<noteq> - 1" and "fopen_ok e"
    and "sf_open_src e = Some (n, se, sk)" and "sf_open_dst_ok e"
    and "target = rate_fallback (target_sample_rate (load_settings e))"
  shows "\<exists>pre. app_exec e data =
           followed_by pre
             (convert_samples e target (espeak_Initialize e) n
                (raw_name_of (tmp_name_of e) target)
                (play_stage e (parse_args e (the data)) (tmp_name_of e) 0 []))"
proof -
  have "convert_stage e target (espeak_Initialize e) (raw_name_of (tmp_name_of e) target)
          (wav_name_of (tmp_name_of e) target)
          (play_stage e (parse_args e (the data)) (tmp_name_of e) 0 []) =
        followed_by
          [Sf_open_read (raw_name_of (tmp_name_of e) target) (src_info_init (espeak_Initialize e)),
           Sf_open_write (wav_name_of (tmp_name_of e) target)
             (dst_info_init
                ((src_info_init (espeak_Initialize e))\<lparr>frames := n, sections := se, seekable := sk\<rparr>)
                target)]
          (convert_samples e target (espeak_Initialize e) n
             (raw_name_of (tmp_name_of e) target)
             (play_stage e (parse_args e (the data)) (tmp_name_of e) 0 []))"
    using assms(5,6) by (simp add: convert_stage_def Let_def)
  then show ?thesis
    using assms(1-4,7)
    by (simp add: app_exec_def cache_stage_def synth_stage_def Let_def followed_by_followed_by)
      blast
qed

subsection \<open>The run that asks for 11025 Hz\<close>

lemma run_env_11025:
  "app_exec env_11025 (Some ''hi'') =
     ([Ast_config_load ''espeak.conf'',
       Ast_log LOG_WARNING
         ''eSpeak: Unsupported sample rate: %lf. Falling back to 8000Hz\<newline>'',
       Espeak_Initialize, Espeak_SetSynthCallback, Espeak_SetVoiceByName ''default'',
       Espeak_SetParameter espeakRATE 150, Espeak_SetParameter espeakVOLUME 100,
       Espeak_SetParameter espeakWORDGAP 1, Espeak_SetParameter espeakPITCH 50,
       Espeak_SetParameter espeakCAPITALS 0, Fopen (Some ''/tmp/eSpeak_7.raw''),
       Espeak_Synth ''hi'', Espeak_Terminate, Fclose,
       Sf_open_read (Some ''/tmp/eSpeak_7.raw'')
         \<lparr>frames = 0, samplerate = 22050, channels = 1, format = 262146, sections = 0,
          seekable = 0\<rparr>,
       Sf_open_write (Some ''/tmp/eSpeak_7.wav'')
         \<lparr>frames = 3, samplerate = 8000, channels = 1, format = 65538, sections = 1,
          seekable = 1\<rparr>,
       Malloc 12, Sf_readf_float 3, Malloc 4, Src_simple [1, 2, 3] 3 1 8000 22050,
       Sf_writef_float [1] 1, Sf_write_sync, Sf_close_src, Sf_close_dst, Free_src, Free_dst,
       Remove (Some ''/tmp/eSpeak_7.raw''), Ast_streamfile ''/tmp/eSpeak_7'',
       Ast_waitstream None, Ast_stopstream, Ast_filedelete ''/tmp/eSpeak_7'',
       Ast_config_destroy],
      Returns 0)"
  by (simp add: env_11025_def run_defs)

lemma rate_env_11025: "target_sample_rate (load_settings env_11025) = 11025"
  by (simp add: env_11025_def load_settings_def retrieve_atoi_def)

subsection \<open>The empty argument\<close>

text \<open>
  Claim C9, as the code has it. The test of line 103 is on the whole argument string.
  When \<open>data\<close> is a null pointer or the empty string, \<open>app_exec\<close> logs one error and
  returns -1. That is the whole run, whatever the surroundings would answer: the
  configuration is not loaded, nothing is synthesised, no temporary file is opened and
  nothing is played.
\<close>

theorem app_exec_empty_text:
  "ast_strlen_zero data \<Longrightarrow>
   app_exec e data = ([Ast_log LOG_ERROR
     ''eSpeak requires an argument (text)\<newline>''], Returns (- 1))"
  by (simp add: app_exec_def)

theorem app_exec_empty_text_witness:
  "ast_strlen_zero (Some []) \<and> ast_strlen_zero None \<and>
   app_exec env_11025 (Some []) =
     ([Ast_log LOG_ERROR ''eSpeak requires an argument (text)\<newline>''], Returns (- 1)) \<and>
   app_exec env_11025 None =
     ([Ast_log LOG_ERROR ''eSpeak requires an argument (text)\<newline>''], Returns (- 1))"
  using app_exec_empty_text [of "Some []" env_11025] app_exec_empty_text [of None env_11025]
  by (simp add: ast_strlen_zero_def)

text \<open>
  Claim C9 as stated fails for an empty first argument inside a non-empty argument string:
  with \<open>data = ",any"\<close> the text is empty, the test of line 103 passes and nothing tests
  \<open>args.text\<close>; the run loads the configuration, synthesises the empty text, converts,
  plays the file and returns 0.
\<close>

theorem empty_text_argument_counterexample:
  "\<not> ast_strlen_zero (Some '',any'') \<and>
   arg_text (parse_args env_empty_text '',any'') = [] \<and>
   app_exec env_empty_text (Some '',any'') =
     ([Ast_config_load ''espeak.conf'',
       Ast_log LOG_WARNING
         ''eSpeak: Unsupported sample rate: %lf. Falling back to 8000Hz\<newline>'',
       Espeak_Initialize, Espeak_SetSynthCallback, Espeak_SetVoiceByName ''default'',
       Espeak_SetParameter espeakRATE 150, Espeak_SetParameter espeakVOLUME 100,
       Espeak_SetParameter espeakWORDGAP 1, Espeak_SetParameter espeakPITCH 50,
       Espeak_SetParameter espeakCAPITALS 0, Fopen (Some ''/tmp/eSpeak_7.raw''),
       Espeak_Synth [], Espeak_Terminate, Fclose,
       Sf_open_read (Some ''/tmp/eSpeak_7.raw'')
         \<lparr>frames = 0, samplerate = 22050, channels = 1, format = 262146, sections = 0,
          seekable = 0\<rparr>,
       Sf_open_write (Some ''/tmp/eSpeak_7.wav'')
         \<lparr>frames = 3, samplerate = 8000, channels = 1, format = 65538, sections = 1,
          seekable = 1\<rparr>,
       Malloc 12, Sf_readf_float 3, Malloc 4, Src_simple [1, 2, 3] 3 1 8000 22050,
       Sf_writef_float [1] 1, Sf_write_sync, Sf_close_src, Sf_close_dst, Free_src, Free_dst,
       Remove (Some ''/tmp/eSpeak_7.raw''), Ast_streamfile ''/tmp/eSpeak_7'',
       Ast_waitstream (Some ''0123456789#*ABCD''), Ast_stopstream,
       Ast_filedelete ''/tmp/eSpeak_7'', Ast_config_destroy],
      Returns 0)"
  by (simp add: env_empty_text_def env_11025_def run_defs strcasecmp_eq_def tolower_c_def
      AST_DIGIT_ANY_def)

subsection \<open>The sample rate in effect\<close>

lemma rate_fallback_supported: "rate_fallback r = 8000 \<or> rate_fallback r = 16000"
  by (simp add: rate_fallback_def)

lemma play_stage_rate_ok: "list_all event_rate_ok (fst (play_stage e args tmp_name wc cf))"
  by (simp add: play_stage_def Let_def)

lemma convert_samples_rate_ok:
  assumes "target = 8000 \<or> target = 16000" and "raw_name \<noteq> None"
    and "list_all event_rate_ok (fst rest)"
  shows "list_all event_rate_ok (fst (convert_samples e target sample_rate n raw_name rest))"
  using assms
  by (auto simp: convert_samples_def followed_by_def write_events_def
      split: option.splits)

lemma convert_stage_rate_ok:
  assumes "target = 8000 \<or> target = 16000" and "raw_name \<noteq> None" and "wav_name \<noteq> None"
    and "list_all event_rate_ok (fst rest)"
  shows "list_all event_rate_ok (fst (convert_stage e target sample_rate raw_name wav_name rest))"
  using assms convert_samples_rate_ok [OF assms(1,2,4)]
  by (auto simp: convert_stage_def followed_by_def dst_info_init_def Let_def
      split: option.splits)

lemma names_initialised:
  "target = 8000 \<or> target = 16000 \<Longrightarrow>
   raw_name_of tmp_name target \<noteq> None \<and> wav_name_of tmp_name target \<noteq> None"
  by (auto simp: raw_name_of_def wav_name_of_def)

lemma synth_stage_rate_ok:
  assumes "target = 8000 \<or> target = 16000"
  shows "list_all event_rate_ok (fst (synth_stage e s args vc target wc cf))"
proof -
  have names: "raw_name_of (tmp_name_of e) target \<noteq> None"
    "wav_name_of (tmp_name_of e) target \<noteq> None"
    using names_initialised [OF assms] by simp_all
  have "list_all event_rate_ok
          (fst (convert_stage e target (espeak_Initialize e)
                  (raw_name_of (tmp_name_of e) target) (wav_name_of (tmp_name_of e) target)
                  (play_stage e args (tmp_name_of e) wc cf)))"
    by (rule convert_stage_rate_ok [OF assms names play_stage_rate_ok])
  then show ?thesis
    using names by (simp add: synth_stage_def followed_by_def Let_def)
qed

lemma cache_stage_rate_ok:
  assumes "target = 8000 \<or> target = 16000"
  shows "list_all event_rate_ok (fst (cache_stage e s args vc target))"
  by (simp add: cache_stage_def followed_by_def Let_def synth_stage_rate_ok [OF assms])

text \<open>
  Claim C10. The rate that every step after line 157 works with is
  \<open>rate_fallback\<close> of the configured one, and it is 8000 or 16000. In every run, whatever
  the configuration and the surroundings, each temporary file that is opened or removed
  has been named, the WAV file is opened with a rate of 8000 or 16000, and the resampler
  is called with a target rate of 8000 or 16000.
\<close>

theorem app_exec_rate_supported:
  "(rate_fallback (target_sample_rate (load_settings e)) = 8000 \<or>
    rate_fallback (target_sample_rate (load_settings e)) = 16000) \<and>
   list_all event_rate_ok (fst (app_exec e data))"
  by (simp add: app_exec_def followed_by_def Let_def rate_fallback_supported
      config_events_def rate_events_def cache_stage_rate_ok [OF rate_fallback_supported])

theorem app_exec_rate_supported_witness:
  "Src_simple [1, 2, 3] 3 1 8000 22050 \<in> set (fst (app_exec env_11025 (Some ''hi''))) \<and>
   rate_fallback (target_sample_rate (load_settings env_11025)) = 8000 \<and>
   list_all event_rate_ok (fst (app_exec env_11025 (Some ''hi'')))"
  using app_exec_rate_supported [of env_11025 "Some ''hi''"]
  by (simp add: run_env_11025 rate_env_11025 rate_fallback_def)

subsection \<open>An unsupported rate in the configuration\<close>

text \<open>
  The steps after line 157 read neither the configuration file nor the configured rate:
  they run the same when the surroundings differ only in what \<open>espeak.conf\<close> holds.
\<close>

lemma load_settings_no_rate:
  assumes "e' = e\<lparr>ast_variable_retrieve :=
                    (\<lambda>c v. if c = ''general'' \<and> v = ''samplerate'' then None
                           else ast_variable_retrieve e c v)\<rparr>"
  shows "load_settings e' = (load_settings e)\<lparr>target_sample_rate := 8000\<rparr>"
  using assms
  by (simp add: load_settings_def retrieve_atoi_def default_settings_def
      cong: option.case_cong)

lemma play_stage_cong:
  assumes "e' = e\<lparr>ast_variable_retrieve := f\<rparr>"
  shows "play_stage e' args tmp_name wc cf = play_stage e args tmp_name wc cf"
  using assms by (simp add: play_stage_def Let_def cong: if_cong)

lemma convert_samples_cong:
  assumes "e' = e\<lparr>ast_variable_retrieve := f\<rparr>"
  shows "convert_samples e' target sample_rate n raw_name rest =
         convert_samples e target sample_rate n raw_name rest"
  using assms by (simp add: convert_samples_def cong: option.case_cong if_cong)

lemma convert_stage_cong:
  assumes "e' = e\<lparr>ast_variable_retrieve := f\<rparr>"
  shows "convert_stage e' target sample_rate raw_name wav_name rest =
         convert_stage e target sample_rate raw_name wav_name rest"
  using assms
  by (simp add: convert_stage_def Let_def convert_samples_cong [OF refl]
      cong: option.case_cong if_cong)

lemma synth_stage_cong:
  assumes "e' = e\<lparr>ast_variable_retrieve := f\<rparr>"
  shows "synth_stage e' (s\<lparr>target_sample_rate := x\<rparr>) args vc target wc cf =
         synth_stage e s args vc target wc cf"
  using assms
  by (simp add: synth_stage_def tmp_name_of_def Let_def convert_stage_cong [OF refl]
      play_stage_cong [OF refl] cong: if_cong)

lemma cache_stage_cong:
  assumes "e' = e\<lparr>ast_variable_retrieve := f\<rparr>"
  shows "cache_stage e' (s\<lparr>target_sample_rate := x\<rparr>) args vc target =
         cache_stage e s args vc target"
  using assms
  by (simp add: cache_stage_def cachefile_of_def Let_def synth_stage_cong [OF refl]
      cong: if_cong)

text \<open>
  Every WAV tag and every resampler target in the steps after line 157 is the rate those
  steps are given.
\<close>

lemma play_stage_rate_is:
  "list_all (event_rate_is target) (fst (play_stage e args tmp_name wc cf))"
  by (simp add: play_stage_def Let_def)

lemma convert_samples_rate_is:
  assumes "list_all (event_rate_is target) (fst rest)"
  shows "list_all (event_rate_is target)
           (fst (convert_samples e target sample_rate n raw_name rest))"
  using assms
  by (auto simp: convert_samples_def followed_by_def write_events_def
      split: option.splits)

lemma convert_stage_rate_is:
  assumes "list_all (event_rate_is target) (fst rest)"
  shows "list_all (event_rate_is target)
           (fst (convert_stage e target sample_rate raw_name wav_name rest))"
  using convert_samples_rate_is [OF assms]
  by (auto simp: convert_stage_def followed_by_def dst_info_init_def Let_def
      split: option.splits)

lemma synth_stage_rate_is:
  "list_all (event_rate_is target) (fst (synth_stage e s args vc target wc cf))"
  by (simp add: synth_stage_def followed_by_def Let_def
      convert_stage_rate_is [OF play_stage_rate_is])

lemma cache_stage_rate_is:
  "list_all (event_rate_is target) (fst (cache_stage e s args vc target))"
  by (simp add: cache_stage_def followed_by_def Let_def synth_stage_rate_is)

text \<open>
  Claim C1, as the code has it. When the argument is not empty and the configured rate
  \<open>r\<close> is neither 8000 nor 16000, the rate is not rejected: \<open>app_exec\<close> logs the warning
  of line 153, takes 8000 instead and goes on with the remaining steps. The run is the
  loading of the configuration, the warning, and the run of the remaining steps at 8000 Hz;
  it equals, but for that warning, the run in surroundings \<open>e'\<close> whose configuration names
  no sample rate (so that the default 8000 applies), with the same outcome, whatever that
  outcome is; and every WAV tag and every resampler target in it is 8000.
\<close>

theorem unsupported_rate_falls_back:
  assumes "\<not> ast_strlen_zero data"
    and "r = target_sample_rate (load_settings e)"
    and "r \<noteq> 8000" and "r \<noteq> 16000"
    and "e' = e\<lparr>ast_variable_retrieve :=
                    (\<lambda>c v. if c = ''general'' \<and> v = ''samplerate'' then None
                           else ast_variable_retrieve e c v)\<rparr>"
  shows "app_exec e data =
           followed_by
             [Ast_config_load ESPEAK_CONFIG,
              Ast_log LOG_WARNING
                ''eSpeak: Unsupported sample rate: %lf. Falling back to 8000Hz\<newline>'']
             (cache_stage e (load_settings e) (parse_args e (the data))
                (effective_voice (load_settings e) (parse_args e (the data))) 8000) \<and>
         target_sample_rate (load_settings e') = 8000 \<and>
         fst (app_exec e data) =
           Ast_config_load ESPEAK_CONFIG #
           Ast_log LOG_WARNING
             ''eSpeak: Unsupported sample rate: %lf. Falling back to 8000Hz\<newline>'' #
           tl (fst (app_exec e' data)) \<and>
         snd (app_exec e data) = snd (app_exec e' data) \<and>
         list_all (event_rate_is 8000) (fst (app_exec e data))"
proof -
  have loaded: "ast_config_load e"
    using assms(2,3) by (auto simp: load_settings_def default_settings_def split: if_splits)
  have s': "load_settings e' = (load_settings e)\<lparr>target_sample_rate := 8000\<rparr>"
    by (rule load_settings_no_rate [OF assms(5)])
  have args: "parse_args e' (the data) = parse_args e (the data)"
    using assms(5) by (simp add: parse_args_def)
  have vc: "effective_voice (load_settings e') (parse_args e (the data)) =
            effective_voice (load_settings e) (parse_args e (the data))"
    by (simp add: s' effective_voice_def)
  have run: "app_exec e data =
           followed_by
             [Ast_config_load ESPEAK_CONFIG,
              Ast_log LOG_WARNING
                ''eSpeak: Unsupported sample rate: %lf. Falling back to 8000Hz\<newline>'']
             (cache_stage e (load_settings e) (parse_args e (the data))
                (effective_voice (load_settings e) (parse_args e (the data))) 8000)"
    using assms(1-4) loaded
    by (simp add: app_exec_def Let_def config_events_def rate_events_def rate_fallback_def)
  have run': "app_exec e' data =
           followed_by [Ast_config_load ESPEAK_CONFIG]
             (cache_stage e (load_settings e) (parse_args e (the data))
                (effective_voice (load_settings e) (parse_args e (the data))) 8000)"
  proof -
    have "app_exec e' data =
            followed_by (config_events e' @ rate_events (target_sample_rate (load_settings e')))
              (cache_stage e' (load_settings e') (parse_args e (the data))
                 (effective_voice (load_settings e) (parse_args e (the data)))
                 (rate_fallback (target_sample_rate (load_settings e'))))"
      using assms(1) by (simp only: app_exec_def Let_def args vc if_False)
    also have "\<dots> =
            followed_by [Ast_config_load ESPEAK_CONFIG]
              (cache_stage e (load_settings e) (parse_args e (the data))
                 (effective_voice (load_settings e) (parse_args e (the data))) 8000)"
      using loaded
      by (simp add: s' cache_stage_cong [OF assms(5)] rate_events_def rate_fallback_def)
         (simp add: assms(5) config_events_def)
    finally show ?thesis .
  qed
  have rates: "list_all (event_rate_is 8000) (fst (app_exec e data))"
    by (simp add: run followed_by_def cache_stage_rate_is)
  have "target_sample_rate (load_settings e') = 8000 \<and>
        fst (app_exec e data) =
          Ast_config_load ESPEAK_CONFIG #
          Ast_log LOG_WARNING
            ''eSpeak: Unsupported sample rate: %lf. Falling back to 8000Hz\<newline>'' #
          tl (fst (app_exec e' data)) \<and>
        snd (app_exec e data) = snd (app_exec e' data)"
    by (simp add: run run' s' followed_by_def)
  with run rates show ?thesis by blast
qed

theorem unsupported_rate_falls_back_witness:
  "\<not> ast_strlen_zero (Some ''hi'') \<and>
   target_sample_rate (load_settings env_11025) = 11025 \<and>
   target_sample_rate (load_settings env_no_rate) = 8000 \<and>
   fst (app_exec env_11025 (Some ''hi'')) =
     Ast_config_load ESPEAK_CONFIG #
     Ast_log LOG_WARNING
       ''eSpeak: Unsupported sample rate: %lf. Falling back to 8000Hz\<newline>'' #
     tl (fst (app_exec env_no_rate (Some ''hi''))) \<and>
   snd (app_exec env_11025 (Some ''hi'')) = snd (app_exec env_no_rate (Some ''hi'')) \<and>
   list_all (event_rate_is 8000) (fst (app_exec env_11025 (Some ''hi'')))"
proof -
  have h1: "\<not> ast_strlen_zero (Some ''hi'')"
    by (simp add: ast_strlen_zero_def)
  have h2: "11025 = target_sample_rate (load_settings env_11025)"
    by (simp add: rate_env_11025)
  have "target_sample_rate (load_settings env_no_rate) = 8000 \<and>
        fst (app_exec env_11025 (Some ''hi'')) =
          Ast_config_load ESPEAK_CONFIG #
          Ast_log LOG_WARNING
            ''eSpeak: Unsupported sample rate: %lf. Falling back to 8000Hz\<newline>'' #
          tl (fst (app_exec env_no_rate (Some ''hi''))) \<and>
        snd (app_exec env_11025 (Some ''hi'')) = snd (app_exec env_no_rate (Some ''hi'')) \<and>
        list_all (event_rate_is 8000) (fst (app_exec env_11025 (Some ''hi'')))"
    by (rule unsupported_rate_falls_back [OF h1 h2 _ _ env_no_rate_def, THEN conjunct2])
      simp_all
  with h1 h2 show ?thesis by metis
qed

text \<open>
  Claim C1 as stated fails: with 11025 Hz configured the run returns 0, having synthesised
  the text, resampled to 8000 Hz, written the samples and played the file.
\<close>

theorem unsupported_rate_counterexample:
  "target_sample_rate (load_settings env_11025) = 11025 \<and>
   snd (app_exec env_11025 (Some ''hi'')) = Returns 0 \<and>
   Espeak_Synth ''hi'' \<in> set (fst (app_exec env_11025 (Some ''hi''))) \<and>
   Src_simple [1, 2, 3] 3 1 8000 22050 \<in> set (fst (app_exec env_11025 (Some ''hi''))) \<and>
   Sf_writef_float [1] 1 \<in> set (fst (app_exec env_11025 (Some ''hi''))) \<and>
   Ast_streamfile ''/tmp/eSpeak_7'' \<in> set (fst (app_exec env_11025 (Some ''hi'')))"
  by (simp add: run_env_11025 rate_env_11025)

subsection \<open>The tags of the WAV file\<close>

lemma play_stage_no_open:
  "Sf_open_write name info \<notin> set (fst (play_stage e args tmp_name wc cf))"
  by (simp add: play_stage_def Let_def)

lemma convert_samples_open:
  "Sf_open_write name info \<in> set (fst (convert_samples e target sample_rate n raw_name rest)) \<Longrightarrow>
   Sf_open_write name info \<in> set (fst rest)"
  by (auto simp: convert_samples_def followed_by_def write_events_def
      split: option.splits if_splits)

lemma convert_stage_open:
  assumes "Sf_open_write name info \<in>
             set (fst (convert_stage e target sample_rate raw_name wav_name rest))"
    and "Sf_open_write name info \<notin> set (fst rest)"
  shows "samplerate info = target \<and> channels info = 1 \<and> format info = WAV_PCM_S16LE"
  using assms
  by (auto simp: convert_stage_def followed_by_def dst_info_init_def src_info_init_def Let_def
      split: option.splits if_splits dest: convert_samples_open)

lemma synth_stage_open:
  assumes "Sf_open_write name info \<in> set (fst (synth_stage e s args vc target wc cf))"
  shows "samplerate info = target \<and> channels info = 1 \<and> format info = WAV_PCM_S16LE"
  using assms
  by (auto simp: synth_stage_def followed_by_def Let_def split: if_splits
      dest: convert_stage_open [OF _ play_stage_no_open])

lemma cache_stage_open:
  assumes "Sf_open_write name info \<in> set (fst (cache_stage e s args vc target))"
  shows "samplerate info = target \<and> channels info = 1 \<and> format info = WAV_PCM_S16LE"
  using assms
  by (auto simp: cache_stage_def followed_by_def Let_def split: if_splits
      dest: synth_stage_open)

text \<open>
  Claim C8, as the code has it. Whenever a run opens the WAV file, the \<open>SF_INFO\<close> it
  passes carries the rate in effect (the requested rate \<open>r\<close> after the fallback of line
  156: \<open>r\<close> itself when \<open>r\<close> is 8000 or 16000, and 8000 otherwise), one channel, and the
  format \<open>WAV_PCM_S16LE\<close>.
\<close>

theorem wav_file_tagged:
  assumes "Sf_open_write name info \<in> set (fst (app_exec e data))"
    and "r = target_sample_rate (load_settings e)"
  shows "samplerate info = rate_fallback r \<and> channels info = 1 \<and>
         format info = WAV_PCM_S16LE \<and> (r = 8000 \<or> r = 16000 \<longrightarrow> samplerate info = r)"
proof -
  have "Sf_open_write name info \<in>
          set (fst (cache_stage e (load_settings e) (parse_args e (the data))
                 (effective_voice (load_settings e) (parse_args e (the data)))
                 (rate_fallback r)))"
    using assms
    by (auto simp: app_exec_def followed_by_def Let_def config_events_def rate_events_def
        split: if_splits)
  from cache_stage_open [OF this] show ?thesis
    by (auto simp: rate_fallback_def)
qed

theorem wav_file_tagged_witness:
  "Sf_open_write (Some ''/tmp/eSpeak_7.wav16'')
     \<lparr>frames = 3, samplerate = 16000, channels = 1, format = 65538, sections = 1,
      seekable = 1\<rparr> \<in> set (fst (app_exec env_16000 (Some ''hi''))) \<and>
   target_sample_rate (load_settings env_16000) = 16000 \<and>
   samplerate
     \<lparr>frames = 3, samplerate = 16000, channels = 1, format = 65538, sections = 1,
      seekable = 1\<rparr> = rate_fallback 16000 \<and>
   channels
     \<lparr>frames = 3, samplerate = 16000, channels = 1, format = 65538, sections = 1,
      seekable = 1\<rparr> = 1 \<and>
   format
     \<lparr>frames = 3, samplerate = 16000, channels = 1, format = 65538, sections = 1,
      seekable = 1\<rparr> = WAV_PCM_S16LE"
proof -
  have m: "Sf_open_write (Some ''/tmp/eSpeak_7.wav16'')
     \<lparr>frames = 3, samplerate = 16000, channels = 1, format = 65538, sections = 1,
      seekable = 1\<rparr> \<in> set (fst (app_exec env_16000 (Some ''hi'')))"
    by (simp add: env_16000_def env_11025_def run_defs)
  have r: "16000 = target_sample_rate (load_settings env_16000)"
    by (simp add: env_16000_def env_11025_def load_settings_def retrieve_atoi_def)
  from wav_file_tagged [OF m r] m r show ?thesis by simp
qed

text \<open>
  Claim C8 as stated fails: 11025 Hz is requested, the conversion succeeds (the run
  returns 0), and the WAV file is tagged with 8000 Hz.
\<close>

theorem wav_tag_requested_counterexample:
  "target_sample_rate (load_settings env_11025) = 11025 \<and>
   Sf_open_write (Some ''/tmp/eSpeak_7.wav'')
     \<lparr>frames = 3, samplerate = 8000, channels = 1, format = 65538, sections = 1,
      seekable = 1\<rparr> \<in> set (fst (app_exec env_11025 (Some ''hi''))) \<and>
   Sf_writef_float [1] 1 \<in> set (fst (app_exec env_11025 (Some ''hi''))) \<and>
   snd (app_exec env_11025 (Some ''hi'')) = Returns 0 \<and>
   samplerate
     \<lparr>frames = 3, samplerate = 8000, channels = 1, format = 65538, sections = 1,
      seekable = 1\<rparr> \<noteq> 11025"
  by (simp add: run_env_11025 rate_env_11025)

subsection \<open>The frame count of the result\<close>

text \<open>
  Claim C2, as the code has it. Line 256 divides in \<open>sf_count_t\<close>, which truncates. For a
  source of \<open>n \<ge> 0\<close> frames at a positive rate, with the product \<open>n * target\<close> inside the
  type, the frame count is \<open>n * target div sample_rate\<close>, the floor of the quotient and not
  its rounding (\<open>n div 2\<close> from 16000 to 8000); and when both buffers are allocated that
  many frames are written, from a buffer of that length.
\<close>

theorem frame_count_truncates:
  assumes "0 \<le> n" and "0 < sample_rate" and "target = 8000 \<or> target = 16000"
    and "n * target < 2 ^ 63"
    and "stored (malloc_src e) n (sf_readf_float_src e) = Some src"
    and "malloc_dst e = Some g"
  shows "dst_frames n target sample_rate = Some (n * target div sample_rate) \<and>
         n * target div sample_rate =
           \<lfloor>real_of_int (n * target) / real_of_int sample_rate\<rfloor> \<and>
         (\<exists>dst. length dst = nat (n * target div sample_rate) \<and>
            Sf_writef_float dst (n * target div sample_rate) \<in>
              set (fst (convert_samples e target sample_rate n raw_name rest)))"
proof -
  have d: "dst_frames n target sample_rate = Some (n * target div sample_rate)"
    using assms(1-4) by (intro dst_frames_nonneg) auto
  have f: "n * target div sample_rate =
           \<lfloor>real_of_int (n * target) / real_of_int sample_rate\<rfloor>"
    by (rule floor_divide_of_int_eq [symmetric])
  have w: "\<exists>dst. length dst = nat (n * target div sample_rate) \<and>
            Sf_writef_float dst (n * target div sample_rate) \<in>
              set (fst (convert_samples e target sample_rate n raw_name rest))"
  proof (rule convert_samples_written [OF assms(5) d assms(6)])
    have "0 \<le> n * target"
      using assms(1,3) by auto
    then show "0 \<le> n * target div sample_rate"
      using assms(2) by (simp add: pos_imp_zdiv_nonneg_iff)
  qed
  from d f w show ?thesis by blast
qed

theorem frame_count_truncates_witness:
  "(0::int) \<le> 3 \<and> (0::int) < 16000 \<and> (3::int) * 8000 < 2 ^ 63 \<and>
   stored (malloc_src env_11025) 3 (sf_readf_float_src env_11025) = Some [1, 2, 3] \<and>
   dst_frames 3 8000 16000 = Some (3 * 8000 div 16000) \<and>
   (3::int) * 8000 div 16000 = 1 \<and>
   (\<exists>dst. length dst = nat (3 * 8000 div 16000) \<and>
      Sf_writef_float dst (3 * 8000 div 16000) \<in>
        set (fst (convert_samples env_11025 8000 16000 3 None ([], Returns 0))))"
proof -
  have s: "stored (malloc_src env_11025) 3 (sf_readf_float_src env_11025) = Some [1, 2, 3]"
    by (simp add: env_11025_def stored_def store_front_def)
  have g: "malloc_dst env_11025 = Some (\<lambda>i. 0)"
    by (simp add: env_11025_def)
  from frame_count_truncates [OF _ _ _ _ s g, of 16000 8000 None "([], Returns 0)"] s
  show ?thesis by simp
qed

text \<open>
  Claim C2 as stated fails: three frames at 16000 Hz become one frame at 8000 Hz, where
  rounding 3 / 2 gives two.
\<close>

theorem frame_count_round_counterexample:
  "dst_frames 3 8000 16000 = Some 1 \<and> spec_frame_count 3 8000 16000 = 2 \<and>
   fst (convert_samples env_11025 8000 16000 3 (Some ''/tmp/eSpeak_7.raw'') ([], Returns 0)) =
     [Malloc 12, Sf_readf_float 3, Malloc 4, Src_simple [1, 2, 3] 3 1 8000 16000,
      Sf_writef_float [1] 1, Sf_write_sync, Sf_close_src, Sf_close_dst, Free_src, Free_dst,
      Remove (Some ''/tmp/eSpeak_7.raw'')]"
  by (simp add: spec_frame_count_def round_def env_11025_def run_defs)

subsection \<open>Equal rates\<close>

text \<open>
  Claim C3, as the code has it. The target rate the conversion runs with is the rate in
  effect after line 157: the requested rate only when that is 8000 or 16000, and 8000
  otherwise. When the rate of the synthesiser equals that target rate, the buffer \<open>b\<close> of
  \<open>n \<ge> 0\<close> frames read from the raw file is handed to \<open>sf_writef_float\<close> as it is, with
  its frame count \<open>n\<close>: the conversion consists of the two allocations, the read, one
  \<open>memcpy\<close> and the write, and the resampler is not called. (Both allocations succeed, and
  \<open>n * target\<close> is inside \<open>sf_count_t\<close>, outside of which line 256 has no defined
  result.)
\<close>

theorem passthrough_identity:
  assumes "sample_rate = target" and "target \<noteq> 0" and "0 \<le> n"
    and "stored (malloc_src e) n (sf_readf_float_src e) = Some b"
    and "malloc_dst e = Some g"
    and "in_sf_count_t (n * target)"
  shows "convert_samples e target sample_rate n raw_name rest =
           followed_by
             [Malloc (malloc_size n), Sf_readf_float n, Malloc (malloc_size n),
              Memcpy (malloc_size n), Sf_writef_float b n, Sf_write_sync, Sf_close_src,
              Sf_close_dst, Free_src, Free_dst, Remove raw_name]
             rest"
proof -
  have d: "dst_frames n target sample_rate = Some n"
    using assms(1,2,6) dst_frames_same_rate [of target n] by auto
  have "stored (malloc_dst e) n b = Some b"
    using stored_length [OF assms(4)] by (simp add: assms(3,5) stored_exact)
  from convert_samples_copy [OF assms(4) d assms(1) this] show ?thesis
    by (simp add: write_events_def)
qed

theorem passthrough_identity_witness:
  "(16000::int) \<noteq> 0 \<and> (0::int) \<le> 3 \<and>
   rate_fallback (target_sample_rate (load_settings env_passthrough)) = 16000 \<and>
   espeak_Initialize env_passthrough = 16000 \<and>
   stored (malloc_src env_passthrough) 3 (sf_readf_float_src env_passthrough) = Some [1, 2, 3] \<and>
   malloc_dst env_passthrough = Some (\<lambda>i. 7) \<and> in_sf_count_t (3 * 16000) \<and>
   convert_samples env_passthrough 16000 16000 3 (Some ''/tmp/eSpeak_7.raw'') ([], Returns 0) =
     ([Malloc 12, Sf_readf_float 3, Malloc 12, Memcpy 12, Sf_writef_float [1, 2, 3] 3,
       Sf_write_sync, Sf_close_src, Sf_close_dst, Free_src, Free_dst,
       Remove (Some ''/tmp/eSpeak_7.raw'')],
      Returns 0) \<and>
   Sf_writef_float [1, 2, 3] 3 \<in> set (fst (app_exec env_passthrough (Some ''hi'')))"
proof -
  have r: "rate_fallback (target_sample_rate (load_settings env_passthrough)) = 16000"
    by (simp add: env_passthrough_def env_16000_def env_11025_def load_settings_def
        retrieve_atoi_def rate_fallback_def)
  have i0: "espeak_Initialize env_passthrough = 16000"
    by (simp add: env_passthrough_def)
  have s: "stored (malloc_src env_passthrough) 3 (sf_readf_float_src env_passthrough) =
           Some [1, 2, 3]"
    by (simp add: env_passthrough_def env_16000_def env_11025_def stored_def store_front_def)
  have g: "malloc_dst env_passthrough = Some (\<lambda>i. 7)"
    by (simp add: env_passthrough_def)
  have i: "in_sf_count_t (3 * 16000)"
    by (simp add: in_sf_count_t_def)
  have a: "Sf_writef_float [1, 2, 3] 3 \<in> set (fst (app_exec env_passthrough (Some ''hi'')))"
    by (simp add: env_passthrough_def env_16000_def env_11025_def run_defs)
  from passthrough_identity [OF refl _ _ s g i, of "Some ''/tmp/eSpeak_7.raw''" "([], Returns 0)"]
    r i0 s g i a
  show ?thesis by (simp add: followed_by_def malloc_size_def)
qed

text \<open>
  Claim C3 as stated fails: 22050 Hz is requested and 22050 Hz is the rate of the source,
  yet the rate in effect is 8000, and the three source frames are resampled to one.
\<close>

theorem passthrough_requested_counterexample:
  "target_sample_rate (load_settings env_22050) = 22050 \<and>
   espeak_Initialize env_22050 = 22050 \<and>
   sf_readf_float_src env_22050 = [1, 2, 3] \<and>
   app_exec env_22050 (Some ''hi'') =
     ([Ast_config_load ''espeak.conf'',
       Ast_log LOG_WARNING
         ''eSpeak: Unsupported sample rate: %lf. Falling back to 8000Hz\<newline>'',
       Espeak_Initialize, Espeak_SetSynthCallback, Espeak_SetVoiceByName ''default'',
       Espeak_SetParameter espeakRATE 150, Espeak_SetParameter espeakVOLUME 100,
       Espeak_SetParameter espeakWORDGAP 1, Espeak_SetParameter espeakPITCH 50,
       Espeak_SetParameter espeakCAPITALS 0, Fopen (Some ''/tmp/eSpeak_7.raw''),
       Espeak_Synth ''hi'', Espeak_Terminate, Fclose,
       Sf_open_read (Some ''/tmp/eSpeak_7.raw'')
         \<lparr>frames = 0, samplerate = 22050, channels = 1, format = 262146, sections = 0,
          seekable = 0\<rparr>,
       Sf_open_write (Some ''/tmp/eSpeak_7.wav'')
         \<lparr>frames = 3, samplerate = 8000, channels = 1, format = 65538, sections = 1,
          seekable = 1\<rparr>,
       Malloc 12, Sf_readf_float 3, Malloc 4, Src_simple [1, 2, 3] 3 1 8000 22050,
       Sf_writef_float [1] 1, Sf_write_sync, Sf_close_src, Sf_close_dst, Free_src, Free_dst,
       Remove (Some ''/tmp/eSpeak_7.raw''), Ast_streamfile ''/tmp/eSpeak_7'',
       Ast_waitstream None, Ast_stopstream, Ast_filedelete ''/tmp/eSpeak_7'',
       Ast_config_destroy],
      Returns 0)"
  by (simp add: env_22050_def env_11025_def run_defs)

subsection \<open>Repeating a conversion\<close>

text \<open>
  Where repeating a conversion gives the same calls and the same samples. Take two runs of
  the conversion with the same source buffer \<open>b\<close>, the same rates, the same resampler,
  the same name of the raw file and the same continuation, in which the output buffer is
  allocated; the previous contents of the output buffer may differ. If the rates are
  equal, or the resampler generates at least the frames it is asked for, the two runs are
  the same.
\<close>

lemma conversion_repeatable:
  assumes "stored (malloc_src e1) n (sf_readf_float_src e1) = Some b"
    and "stored (malloc_src e2) n (sf_readf_float_src e2) = Some b"
    and "src_simple e1 = src_simple e2"
    and "malloc_dst e1 = Some g1" and "malloc_dst e2 = Some g2"
    and "sample_rate = target \<or>
         (\<forall>m. dst_frames n target sample_rate = Some m \<longrightarrow>
              nat m \<le> length (src_simple e1 target sample_rate b m))"
  shows "convert_samples e1 target sample_rate n raw_name rest =
         convert_samples e2 target sample_rate n raw_name rest"
proof (cases "dst_frames n target sample_rate")
  case None
  then show ?thesis
    by (simp add: convert_samples_def assms(1,2))
next
  case (Some m)
  have n0: "0 \<le> n"
    by (rule stored_nonneg [OF assms(1)])
  show ?thesis
  proof (cases "sample_rate = target")
    case True
    have "target \<noteq> 0" "in_sf_count_t (n * target)"
      using Some True by (auto simp: dst_frames_def split: if_splits)
    then have m: "m = n"
      using Some True dst_frames_same_rate [of target n] by simp
    then have len: "length b = nat m"
      using stored_length [OF assms(1)] by simp
    have "stored (malloc_dst e1) m b = Some b" "stored (malloc_dst e2) m b = Some b"
      using len n0 m by (simp_all add: assms(4,5) stored_exact)
    then show ?thesis
      using convert_samples_copy [OF assms(1) Some True] convert_samples_copy [OF assms(2) Some True]
      by simp
  next
    case False
    let ?gen = "src_simple e1 target sample_rate b m"
    show ?thesis
    proof (cases "m < 0")
      case True
      then have "stored (malloc_dst e1) m ?gen = None"
        "stored (malloc_dst e2) m (src_simple e2 target sample_rate b m) = None"
        by (simp_all add: stored_def)
      then show ?thesis
        using False by (simp add: convert_samples_def assms(1,2) Some)
    next
      case nonneg: False
      have filled: "nat m \<le> length ?gen"
        using assms(6) False Some by simp
      have "stored (malloc_dst e1) m ?gen = Some (take (nat m) ?gen)"
        "stored (malloc_dst e2) m (src_simple e2 target sample_rate b m) =
           Some (take (nat m) ?gen)"
        using filled nonneg by (simp_all add: assms(3,4,5) stored_Some store_front_filled)
      then show ?thesis
        using convert_samples_resample [OF assms(1) Some False]
          convert_samples_resample [OF assms(2) Some False]
        by simp
    qed
  qed
qed

text \<open>
  Claim C7 against the code. Two runs with the same three source frames, the same rates
  and the same resampler, which generates no frame (line 266 reads neither what
  \<open>src_simple\<close> returns nor how many frames it generated). Line 270 writes the one frame
  of the output buffer as \<open>malloc\<close> left it: 0 in one run and 7 in the other.
\<close>

theorem resampler_result_unchecked:
  "stored (malloc_src env_heap_0) 3 (sf_readf_float_src env_heap_0) = Some [1, 2, 3] \<and>
   stored (malloc_src env_heap_7) 3 (sf_readf_float_src env_heap_7) = Some [1, 2, 3] \<and>
   src_simple env_heap_0 = src_simple env_heap_7 \<and>
   fst (convert_samples env_heap_0 8000 22050 3 (Some ''/tmp/eSpeak_7.raw'') ([], Returns 0)) =
     [Malloc 12, Sf_readf_float 3, Malloc 4, Src_simple [1, 2, 3] 3 1 8000 22050,
      Sf_writef_float [0] 1, Sf_write_sync, Sf_close_src, Sf_close_dst, Free_src, Free_dst,
      Remove (Some ''/tmp/eSpeak_7.raw'')] \<and>
   fst (convert_samples env_heap_7 8000 22050 3 (Some ''/tmp/eSpeak_7.raw'') ([], Returns 0)) =
     [Malloc 12, Sf_readf_float 3, Malloc 4, Src_simple [1, 2, 3] 3 1 8000 22050,
      Sf_writef_float [7] 1, Sf_write_sync, Sf_close_src, Sf_close_dst, Free_src, Free_dst,
      Remove (Some ''/tmp/eSpeak_7.raw'')] \<and>
   Sf_writef_float [0] 1 \<in> set (fst (app_exec env_heap_0 (Some ''hi''))) \<and>
   Sf_writef_float [7] 1 \<in> set (fst (app_exec env_heap_7 (Some ''hi''))) \<and>
   snd (app_exec env_heap_0 (Some ''hi'')) = Returns 0 \<and>
   snd (app_exec env_heap_7 (Some ''hi'')) = Returns 0"
  by (simp add: env_heap_7_def env_heap_0_def env_11025_def run_defs)

subsection \<open>A null pointer from the allocation of the output buffer\<close>

text \<open>
  Claim C4 against the code. The second \<open>malloc\<close> returns a null pointer for an output of
  one frame. The run logs no error and does not return -1: it calls the resampler with the
  null buffer and has no defined result from there on.
\<close>

theorem dst_malloc_unchecked:
  "malloc_dst env_dst_null = None \<and>
   app_exec env_dst_null (Some ''hi'') =
     ([Ast_config_load ''espeak.conf'',
       Ast_log LOG_WARNING
         ''eSpeak: Unsupported sample rate: %lf. Falling back to 8000Hz\<newline>'',
       Espeak_Initialize, Espeak_SetSynthCallback, Espeak_SetVoiceByName ''default'',
       Espeak_SetParameter espeakRATE 150, Espeak_SetParameter espeakVOLUME 100,
       Espeak_SetParameter espeakWORDGAP 1, Espeak_SetParameter espeakPITCH 50,
       Espeak_SetParameter espeakCAPITALS 0, Fopen (Some ''/tmp/eSpeak_7.raw''),
       Espeak_Synth ''hi'', Espeak_Terminate, Fclose,
       Sf_open_read (Some ''/tmp/eSpeak_7.raw'')
         \<lparr>frames = 0, samplerate = 22050, channels = 1, format = 262146, sections = 0,
          seekable = 0\<rparr>,
       Sf_open_write (Some ''/tmp/eSpeak_7.wav'')
         \<lparr>frames = 3, samplerate = 8000, channels = 1, format = 65538, sections = 1,
          seekable = 1\<rparr>,
       Malloc 12, Sf_readf_float 3, Malloc 4, Src_simple [1, 2, 3] 3 1 8000 22050],
      Undefined)"
  by (simp add: env_dst_null_def env_11025_def run_defs)

subsection \<open>Reading the raw file\<close>

lemma read_failure_reported_followed_by:
  assumes "read_failure_reported r"
    and "\<And>name info. Sf_open_read name info \<notin> set evs"
  shows "read_failure_reported (followed_by evs r)"
  unfolding read_failure_reported_def followed_by_def
proof (intro allI impI)
  fix name info
  assume "Sf_open_read name info \<in> set (fst (evs @ fst r, snd r))"
  then have "Sf_open_read name info \<in> set (fst r)"
    using assms(2) by simp
  with assms(1) obtain pre where "snd r = Returns (- 1)"
    "fst r = pre @ [Sf_open_read name info,
                  Ast_log LOG_ERROR ''eSpeak: Failed to read raw audio data '%s'\<newline>'',
                  Ast_config_destroy, Remove name]"
    unfolding read_failure_reported_def by blast
  then have "snd (evs @ fst r, snd r) = Returns (- 1)"
    "fst (evs @ fst r, snd r) = (evs @ pre) @ [Sf_open_read name info,
                  Ast_log LOG_ERROR ''eSpeak: Failed to read raw audio data '%s'\<newline>'',
                  Ast_config_destroy, Remove name]"
    by simp_all
  then show "snd (evs @ fst r, snd r) = Returns (- 1) \<and>
       (\<exists>pre. fst (evs @ fst r, snd r) =
              pre @ [Sf_open_read name info,
                  Ast_log LOG_ERROR ''eSpeak: Failed to read raw audio data '%s'\<newline>'',
                  Ast_config_destroy, Remove name])"
    by blast
qed

lemma read_failure_reported_no_open:
  "(\<And>name info. Sf_open_read name info \<notin> set evs) \<Longrightarrow> read_failure_reported (evs, out)"
  by (simp add: read_failure_reported_def)

lemma convert_stage_unreadable:
  assumes "sf_open_src e = None"
  shows "convert_stage e target sample_rate raw_name wav_name rest =
           ([Sf_open_read raw_name (src_info_init sample_rate),
             Ast_log LOG_ERROR ''eSpeak: Failed to read raw audio data '%s'\<newline>'',
             Ast_config_destroy, Remove raw_name],
            Returns (- 1))"
  using assms by (simp add: convert_stage_def)

lemma convert_stage_unreadable_reported:
  assumes "sf_open_src e = None"
  shows "read_failure_reported (convert_stage e target sample_rate raw_name wav_name rest)"
  unfolding convert_stage_unreadable [OF assms] read_failure_reported_def
  by auto

lemma synth_stage_unreadable:
  assumes "sf_open_src e = None"
  shows "list_all (\<lambda>ev. \<not> is_conversion_event ev) (fst (synth_stage e s args vc target wc cf)) \<and>
         read_failure_reported (synth_stage e s args vc target wc cf)"
proof -
  have "read_failure_reported (synth_stage e s args vc target wc cf)"
    unfolding synth_stage_def Let_def
    by (auto intro!: read_failure_reported_followed_by read_failure_reported_no_open
        convert_stage_unreadable_reported [OF assms])
  moreover have "list_all (\<lambda>ev. \<not> is_conversion_event ev)
                   (fst (synth_stage e s args vc target wc cf))"
    by (simp add: synth_stage_def Let_def followed_by_def convert_stage_unreadable [OF assms])
  ultimately show ?thesis by blast
qed

lemma cache_stage_unreadable:
  assumes "sf_open_src e = None"
  shows "list_all (\<lambda>ev. \<not> is_conversion_event ev) (fst (cache_stage e s args vc target)) \<and>
         read_failure_reported (cache_stage e s args vc target)"
proof -
  have "read_failure_reported (cache_stage e s args vc target)"
    unfolding cache_stage_def Let_def
    by (auto intro!: read_failure_reported_followed_by read_failure_reported_no_open
        synth_stage_unreadable [OF assms, THEN conjunct2])
  moreover have "list_all (\<lambda>ev. \<not> is_conversion_event ev)
                   (fst (cache_stage e s args vc target))"
    by (simp add: cache_stage_def Let_def followed_by_def
        synth_stage_unreadable [OF assms, THEN conjunct1])
  ultimately show ?thesis by blast
qed

text \<open>
  The failure that \<open>app_exec\<close> does detect is that of opening the raw file for reading
  (line 237). In every run in which that file cannot be opened, no call of the conversion
  is made (the WAV file is not opened, nothing is allocated, read, resampled, copied or
  written), and a run that got as far as trying to open the file returns -1 at once, after
  logging the error, releasing the configuration and removing the raw file.
\<close>

lemma source_open_failure:
  assumes "sf_open_src e = None"
  shows "list_all (\<lambda>ev. \<not> is_conversion_event ev) (fst (app_exec e data)) \<and>
         read_failure_reported (app_exec e data)"
proof -
  have "read_failure_reported (app_exec e data)"
    unfolding app_exec_def Let_def
    by (auto intro!: read_failure_reported_followed_by read_failure_reported_no_open
        cache_stage_unreadable [OF assms, THEN conjunct2]
        simp: config_events_def rate_events_def)
  moreover have "list_all (\<lambda>ev. \<not> is_conversion_event ev) (fst (app_exec e data))"
    by (simp add: app_exec_def Let_def followed_by_def config_events_def rate_events_def
        cache_stage_unreadable [OF assms, THEN conjunct1])
  ultimately show ?thesis by blast
qed

lemma source_open_failure_example:
  "sf_open_src env_src_unreadable = None \<and>
   app_exec env_src_unreadable (Some ''hi'') =
     ([Ast_config_load ''espeak.conf'',
       Ast_log LOG_WARNING
         ''eSpeak: Unsupported sample rate: %lf. Falling back to 8000Hz\<newline>'',
       Espeak_Initialize, Espeak_SetSynthCallback, Espeak_SetVoiceByName ''default'',
       Espeak_SetParameter espeakRATE 150, Espeak_SetParameter espeakVOLUME 100,
       Espeak_SetParameter espeakWORDGAP 1, Espeak_SetParameter espeakPITCH 50,
       Espeak_SetParameter espeakCAPITALS 0, Fopen (Some ''/tmp/eSpeak_7.raw''),
       Espeak_Synth ''hi'', Espeak_Terminate, Fclose,
       Sf_open_read (Some ''/tmp/eSpeak_7.raw'')
         \<lparr>frames = 0, samplerate = 22050, channels = 1, format = 262146, sections = 0,
          seekable = 0\<rparr>,
       Ast_log LOG_ERROR ''eSpeak: Failed to read raw audio data '%s'\<newline>'',
       Ast_config_destroy, Remove (Some ''/tmp/eSpeak_7.raw'')],
      Returns (- 1)) \<and>
   list_all (\<lambda>ev. \<not> is_conversion_event ev) (fst (app_exec env_src_unreadable (Some ''hi''))) \<and>
   read_failure_reported (app_exec env_src_unreadable (Some ''hi''))"
proof -
  have h: "sf_open_src env_src_unreadable = None"
    by (simp add: env_src_unreadable_def)
  have r: "app_exec env_src_unreadable (Some ''hi'') =
     ([Ast_config_load ''espeak.conf'',
       Ast_log LOG_WARNING
         ''eSpeak: Unsupported sample rate: %lf. Falling back to 8000Hz\<newline>'',
       Espeak_Initialize, Espeak_SetSynthCallback, Espeak_SetVoiceByName ''default'',
       Espeak_SetParameter espeakRATE 150, Espeak_SetParameter espeakVOLUME 100,
       Espeak_SetParameter espeakWORDGAP 1, Espeak_SetParameter espeakPITCH 50,
       Espeak_SetParameter espeakCAPITALS 0, Fopen (Some ''/tmp/eSpeak_7.raw''),
       Espeak_Synth ''hi'', Espeak_Terminate, Fclose,
       Sf_open_read (Some ''/tmp/eSpeak_7.raw'')
         \<lparr>frames = 0, samplerate = 22050, channels = 1, format = 262146, sections = 0,
          seekable = 0\<rparr>,
       Ast_log LOG_ERROR ''eSpeak: Failed to read raw audio data '%s'\<newline>'',
       Ast_config_destroy, Remove (Some ''/tmp/eSpeak_7.raw'')],
      Returns (- 1))"
    by (simp add: env_src_unreadable_def env_11025_def run_defs)
  from source_open_failure [OF h, of "Some ''hi''"] h r show ?thesis by blast
qed

text \<open>
  Claim C5 against the code. The raw file is opened with four frames announced and
  \<open>sf_readf_float\<close> delivers two of them; line 255 does not read what the call returns.
  The run goes on: it resamples the two frames read together with the two cells the read
  did not fill, writes the result, plays it and returns 0.
\<close>

theorem short_read_unchecked:
  "sf_open_src env_short_read = Some (4, 1, 1) \<and>
   length (sf_readf_float_src env_short_read) = 2 \<and>
   app_exec env_short_read (Some ''hi'') =
     ([Ast_config_load ''espeak.conf'',
       Ast_log LOG_WARNING
         ''eSpeak: Unsupported sample rate: %lf. Falling back to 8000Hz\<newline>'',
       Espeak_Initialize, Espeak_SetSynthCallback, Espeak_SetVoiceByName ''default'',
       Espeak_SetParameter espeakRATE 150, Espeak_SetParameter espeakVOLUME 100,
       Espeak_SetParameter espeakWORDGAP 1, Espeak_SetParameter espeakPITCH 50,
       Espeak_SetParameter espeakCAPITALS 0, Fopen (Some ''/tmp/eSpeak_7.raw''),
       Espeak_Synth ''hi'', Espeak_Terminate, Fclose,
       Sf_open_read (Some ''/tmp/eSpeak_7.raw'')
         \<lparr>frames = 0, samplerate = 22050, channels = 1, format = 262146, sections = 0,
          seekable = 0\<rparr>,
       Sf_open_write (Some ''/tmp/eSpeak_7.wav'')
         \<lparr>frames = 4, samplerate = 8000, channels = 1, format = 65538, sections = 1,
          seekable = 1\<rparr>,
       Malloc 16, Sf_readf_float 4, Malloc 4, Src_simple [1, 2, 99, 99] 4 1 8000 22050,
       Sf_writef_float [1] 1, Sf_write_sync, Sf_close_src, Sf_close_dst, Free_src, Free_dst,
       Remove (Some ''/tmp/eSpeak_7.raw''), Ast_streamfile ''/tmp/eSpeak_7'',
       Ast_waitstream None, Ast_stopstream, Ast_filedelete ''/tmp/eSpeak_7'',
       Ast_config_destroy],
      Returns 0)"
  by (simp add: env_short_read_def env_11025_def run_defs) (simp add: upt_rec)

end
